theory Spec2Isabelle
  imports Main
begin

section \<open>Values crossing the JavaScript boundary\<close>

text \<open>
  A thrown or returned error object. Only its \<open>message\<close> property is read by the
  code (\<open>err.message || '...'\<close>); the empty string stands for every falsy message.
\<close>

datatype jserror = JsError (err_message: string)

text \<open>What \<open>JSON.parse\<close> can return, and what a property read can yield.\<close>

datatype jsval =
    JUndefined
  | JNull
  | JBool bool
  | JNum int
  | JStr string
  | JArr "jsval list"
  | JObj "(string \<times> jsval) list"

text \<open>
  The property read \<open>x.k\<close> for the keys the code uses (\<open>password\<close>, \<open>name\<close>):
  a \<open>TypeError\<close> on \<open>null\<close> and \<open>undefined\<close>, the stored value on an object that
  has the key, \<open>undefined\<close> everywhere else. The message of the \<open>TypeError\<close> names
  the property between single quotes.
\<close>

definition quoted :: "string \<Rightarrow> string" where
  "quoted k = CHR 0x27 # k @ [CHR 0x27]"

fun get_prop :: "jsval \<Rightarrow> string \<Rightarrow> jserror + jsval" where
  "get_prop JNull k =
     Inl (JsError (''Cannot read properties of null (reading '' @ quoted k @ '')''))"
| "get_prop JUndefined k =
     Inl (JsError (''Cannot read properties of undefined (reading '' @ quoted k @ '')''))"
| "get_prop (JObj fs) k = Inr (case map_of fs k of None \<Rightarrow> JUndefined | Some x \<Rightarrow> x)"
| "get_prop x k = Inr JUndefined"

text \<open>
  A value that is a string, \<open>null\<close> or \<open>undefined\<close>, tested for truthiness:
  the string when it is not empty, nothing otherwise.
\<close>

fun truthy :: "string option \<Rightarrow> string option" where
  "truthy None = None"
| "truthy (Some s) = (if s = [] then None else Some s)"

datatype User = User string

datatype Session = Session (access_token: string) (session_user: User)

section \<open>The external provider\<close>

text \<open>
  How an awaited provider call ends: \<open>Fulfilled d\<close> is a promise resolved to
  \<open>{data: d, error: null}\<close>, \<open>Failed e\<close> one resolved to \<open>{data: ..., error: e}\<close>
  with nothing in \<open>data\<close> (for \<open>getSession\<close>, \<open>data.session\<close> is \<open>null\<close>), and
  \<open>Rejected e\<close> a promise that rejects, so that \<open>await\<close> throws \<open>e\<close>.
\<close>

datatype 'a outcome = Fulfilled 'a | Failed jserror | Rejected jserror

datatype otp_kind = EmailOtp | SignupOtp

datatype request =
    GetSession
  | OnAuthStateChange
  | SignInWithOtp string bool
  | VerifyOtp string string otp_kind
  | SignUp string jsval jsval string

text \<open>
  The provider is opaque: it has a state of its own, of type \<open>'p\<close>, and each operation
  maps the arguments and that state to an outcome and a new state. \<open>origin\<close> is
  \<open>window.location.origin\<close> and \<open>JSON_parse\<close> the platform's parser, which throws
  on malformed text.
\<close>

record 'p env =
  origin :: string
  JSON_parse :: "string \<Rightarrow> jserror + jsval"
  auth_getSession :: "'p \<Rightarrow> Session option outcome \<times> 'p"
  auth_signInWithOtp :: "string \<Rightarrow> bool \<Rightarrow> 'p \<Rightarrow> unit outcome \<times> 'p"
  auth_verifyOtp :: "string \<Rightarrow> string \<Rightarrow> otp_kind \<Rightarrow> 'p \<Rightarrow> unit outcome \<times> 'p"
  auth_signUp :: "string \<Rightarrow> jsval \<Rightarrow> jsval \<Rightarrow> string \<Rightarrow> 'p \<Rightarrow> jsval outcome \<times> 'p"

section \<open>The browser: storage, console, timers, navigation\<close>

datatype logarg = S string | E jserror | V jsval

datatype nav_state = NoState | From string | AccountCreated bool

text \<open>The component state setters of \<open>OtpVerification\<close>.\<close>

datatype setter =
    SetOtp string
  | SetEmail string
  | SetLoading bool
  | SetError string
  | SetMessage string
  | SetCooldown int

datatype timer_action = Set setter | NavigateTo string nav_state

datatype cleanup = ClearTimeout nat | Unsubscribe nat

text \<open>Every effect the code has on its surroundings, in the order it happens.\<close>

datatype event =
    ConsoleLog "logarg list"
  | ConsoleError "logarg list"
  | SetItem string string
  | RemoveItem string
  | Request request
  | Unsubscribed nat
  | Navigated string nav_state
  | State setter

record 'p world =
  localStorage :: "string \<rightharpoonup> string"
  trace :: "event list"
  backend :: 'p
  listeners :: "nat list"
  timers :: "nat \<rightharpoonup> nat \<times> timer_action"
  fresh :: nat

definition emit :: "event \<Rightarrow> 'p world \<Rightarrow> 'p world" where
  "emit ev w = w\<lparr>trace := trace w @ [ev]\<rparr>"

definition console_log :: "logarg list \<Rightarrow> 'p world \<Rightarrow> 'p world" where
  "console_log args w = emit (ConsoleLog args) w"

definition console_error :: "logarg list \<Rightarrow> 'p world \<Rightarrow> 'p world" where
  "console_error args w = emit (ConsoleError args) w"

definition getItem :: "string \<Rightarrow> 'p world \<Rightarrow> string option" where
  "getItem k w = localStorage w k"

definition setItem :: "string \<Rightarrow> string \<Rightarrow> 'p world \<Rightarrow> 'p world" where
  "setItem k x w = emit (SetItem k x) (w\<lparr>localStorage := (localStorage w)(k \<mapsto> x)\<rparr>)"

definition removeItem :: "string \<Rightarrow> 'p world \<Rightarrow> 'p world" where
  "removeItem k w = emit (RemoveItem k) (w\<lparr>localStorage := (localStorage w)(k := None)\<rparr>)"

definition navigate :: "string \<Rightarrow> nav_state \<Rightarrow> 'p world \<Rightarrow> 'p world" where
  "navigate path st w = emit (Navigated path st) w"

text \<open>
  The pending timers, by identifier, each with its delay in milliseconds and its
  callback. \<open>setTimeout\<close> returns the identifier of the timer it registers.
\<close>

definition setTimeout :: "timer_action \<Rightarrow> nat \<Rightarrow> 'p world \<Rightarrow> nat \<times> 'p world" where
  "setTimeout act ms w =
     (fresh w, w\<lparr>timers := (timers w)(fresh w \<mapsto> (ms, act)), fresh := Suc (fresh w)\<rparr>)"

definition clearTimeout :: "nat \<Rightarrow> 'p world \<Rightarrow> 'p world" where
  "clearTimeout t w = w\<lparr>timers := (timers w)(t := None)\<rparr>"

text \<open>
  \<open>supabase.auth.onAuthStateChange\<close> registers the callback with the provider and
  returns the subscription; \<open>unsubscribe\<close> takes it out again.
\<close>

definition onAuthStateChange :: "'p world \<Rightarrow> nat \<times> 'p world" where
  "onAuthStateChange w =
     (fresh w,
      emit (Request OnAuthStateChange)
        (w\<lparr>listeners := listeners w @ [fresh w], fresh := Suc (fresh w)\<rparr>))"

definition unsubscribe :: "nat \<Rightarrow> 'p world \<Rightarrow> 'p world" where
  "unsubscribe sub w = emit (Unsubscribed sub) (w\<lparr>listeners := removeAll sub (listeners w)\<rparr>)"

text \<open>The requests sent to the provider, in order.\<close>

fun as_request :: "event \<Rightarrow> request list" where
  "as_request (Request r) = [r]"
| "as_request ev = []"

definition requests :: "'p world \<Rightarrow> request list" where
  "requests w = concat (map as_request (trace w))"

text \<open>The errors written to the console, in order.\<close>

fun as_console_error :: "event \<Rightarrow> logarg list list" where
  "as_console_error (ConsoleError args) = [args]"
| "as_console_error ev = []"

definition console_errors :: "'p world \<Rightarrow> logarg list list" where
  "console_errors w = concat (map as_console_error (trace w))"

section \<open>React's handling of effect clean-ups\<close>

text \<open>
  An effect callback returns a clean-up function or nothing; on unmount React runs the
  clean-up the callback returned, and nothing when it returned none.
\<close>

fun run_cleanup :: "cleanup \<Rightarrow> 'p world \<Rightarrow> 'p world" where
  "run_cleanup (ClearTimeout t) w = clearTimeout t w"
| "run_cleanup (Unsubscribe sub) w = unsubscribe sub w"

fun unmount :: "cleanup option \<Rightarrow> 'p world \<Rightarrow> 'p world" where
  "unmount None w = w"
| "unmount (Some c) w = run_cleanup c w"

section \<open>App.tsx: the route guard\<close>

record auth_state =
  user :: "User option"
  session :: "Session option"
  loading :: bool

datatype 'c element = Spinner | Navigate string nav_state bool | Fragment 'c

definition ProtectedRoute :: "auth_state \<Rightarrow> string \<Rightarrow> 'c \<Rightarrow> 'c element" where
  "ProtectedRoute auth location children =
     (if auth_state.loading auth then Spinner
      else if user auth = None then Navigate ''/login'' (From location) True
      else Fragment children)"

section \<open>AuthContext.tsx: the session store and the gateway\<close>

definition AuthProvider_init :: auth_state where
  "AuthProvider_init = \<lparr>user = None, session = None, loading = True\<rparr>"

text \<open>
  \<open>checkUser\<close> (lines 42 to 65). The value of its promise is the clean-up function it
  returns, which unsubscribes the listener.
\<close>

definition checkUser :: "'p env \<Rightarrow> auth_state \<Rightarrow> 'p world \<Rightarrow> cleanup \<times> auth_state \<times> 'p world" where
  "checkUser env a w =
     (let (r, b) = auth_getSession env (backend w);
          w1 = emit (Request GetSession) (w\<lparr>backend := b\<rparr>);
          (a1, w2) =
            (case r of
               Fulfilled s \<Rightarrow> (a\<lparr>session := s, user := map_option session_user s\<rparr>, w1)
             | Failed e \<Rightarrow> (a\<lparr>session := None, user := None\<rparr>, w1)
             | Rejected e \<Rightarrow> (a, console_error [S ''Error checking session:'', E e] w1));
          a2 = a1\<lparr>loading := False\<rparr>;
          (sub, w3) = onAuthStateChange w2
      in (Unsubscribe sub, a2, w3))"

text \<open>
  The effect callback of \<open>AuthProvider\<close> (lines 40 to 68) calls \<open>checkUser()\<close>, drops
  the promise and has no \<open>return\<close> of its own.
\<close>

definition AuthProvider_useEffect ::
  "'p env \<Rightarrow> auth_state \<Rightarrow> 'p world \<Rightarrow> cleanup option \<times> auth_state \<times> 'p world" where
  "AuthProvider_useEffect env a w =
     (let (c, a', w') = checkUser env a w in (None, a', w'))"

text \<open>The callback given to \<open>onAuthStateChange\<close> (lines 55 to 59).\<close>

definition authListener :: "string \<Rightarrow> Session option \<Rightarrow> auth_state \<Rightarrow> 'p world \<Rightarrow> auth_state \<times> 'p world" where
  "authListener ev s a w =
     (a\<lparr>session := s, user := map_option session_user s\<rparr>,
      console_log [S ''Auth state changed:'', S ev] w)"

text \<open>The provider calls the callback of every subscription that is still registered.\<close>

definition deliver :: "nat \<Rightarrow> string \<Rightarrow> Session option \<Rightarrow> auth_state \<Rightarrow> 'p world \<Rightarrow> auth_state \<times> 'p world" where
  "deliver sub ev s a w = (if sub \<in> set (listeners w) then authListener ev s a w else (a, w))"

text \<open>\<open>sendSignUpOTP\<close> (lines 93 to 119).\<close>

definition sendSignUpOTP :: "'p env \<Rightarrow> string \<Rightarrow> 'p world \<Rightarrow> (jserror + unit) \<times> 'p world" where
  "sendSignUpOTP env email w =
     (let w1 = console_log [S ''Sending signup OTP to:'', S email] w;
          w2 = setItem ''signupEmail'' email w1;
          (r, b) = auth_signInWithOtp env email False (backend w2);
          w3 = emit (Request (SignInWithOtp email False)) (w2\<lparr>backend := b\<rparr>)
      in case r of
           Fulfilled u \<Rightarrow> (Inr (), console_log [S ''OTP sent successfully to:'', S email] w3)
         | Failed e \<Rightarrow>
             (Inl e, console_error [S ''Exception sending OTP:'', E e]
                       (console_error [S ''Error sending OTP:'', E e] w3))
         | Rejected e \<Rightarrow> (Inl e, console_error [S ''Exception sending OTP:'', E e] w3))"

text \<open>\<open>verifyOTPAndSignUp\<close> (lines 122 to 165).\<close>

definition verifyOTPAndSignUp ::
  "'p env \<Rightarrow> string \<Rightarrow> string \<Rightarrow> jsval \<Rightarrow> jsval \<Rightarrow> 'p world \<Rightarrow> (jserror + jsval) \<times> 'p world" where
  "verifyOTPAndSignUp env email token password userData w =
     (let w1 = console_log [S ''Verifying OTP and creating account for:'', S email] w;
          (r, b) = auth_verifyOtp env email token EmailOtp (backend w1);
          w2 = emit (Request (VerifyOtp email token EmailOtp)) (w1\<lparr>backend := b\<rparr>)
      in case r of
           Failed e \<Rightarrow>
             (Inl e, console_error [S ''Exception in verification and signup:'', E e]
                       (console_error [S ''OTP verification error:'', E e] w2))
         | Rejected e \<Rightarrow>
             (Inl e, console_error [S ''Exception in verification and signup:'', E e] w2)
         | Fulfilled u \<Rightarrow>
             (let w3 = console_log [S ''OTP verified successfully, creating account''] w2;
                  (r', b') = auth_signUp env email password userData (origin env @ ''/login'') (backend w3);
                  w4 = emit (Request (SignUp email password userData (origin env @ ''/login'')))
                         (w3\<lparr>backend := b'\<rparr>)
              in case r' of
                   Failed e \<Rightarrow>
                     (Inl e, console_error [S ''Exception in verification and signup:'', E e]
                               (console_error [S ''Account creation error:'', E e] w4))
                 | Rejected e \<Rightarrow>
                     (Inl e, console_error [S ''Exception in verification and signup:'', E e] w4)
                 | Fulfilled d \<Rightarrow>
                     (Inr d, removeItem ''signupEmail''
                               (console_log [S ''Account created successfully:'', V d] w4))))"

section \<open>OtpVerification.tsx: the verification page\<close>

record otp_view =
  otp :: string
  email :: string
  loading :: bool
  error :: string
  message :: string
  cooldown :: int

definition OtpVerification_init :: otp_view where
  "OtpVerification_init =
     \<lparr>otp = [], email = [], loading = False, error = [], message = [], cooldown = 0\<rparr>"

fun apply_setter :: "setter \<Rightarrow> otp_view \<Rightarrow> otp_view" where
  "apply_setter (SetOtp x) v = v\<lparr>otp := x\<rparr>"
| "apply_setter (SetEmail x) v = v\<lparr>email := x\<rparr>"
| "apply_setter (SetLoading x) v = v\<lparr>otp_view.loading := x\<rparr>"
| "apply_setter (SetError x) v = v\<lparr>error := x\<rparr>"
| "apply_setter (SetMessage x) v = v\<lparr>message := x\<rparr>"
| "apply_setter (SetCooldown x) v = v\<lparr>cooldown := x\<rparr>"

text \<open>A call of a state setter changes the component state and is recorded.\<close>

definition setState :: "setter \<Rightarrow> otp_view \<times> 'p world \<Rightarrow> otp_view \<times> 'p world" where
  "setState s vw = (apply_setter s (fst vw), emit (State s) (snd vw))"

text \<open>
  The effect of the page (lines 18 to 38). \<open>location_email\<close> is
  \<open>location.state && location.state.email\<close>.
\<close>

definition OtpVerification_useEffect ::
  "string option \<Rightarrow> otp_view \<Rightarrow> 'p world \<Rightarrow> cleanup option \<times> otp_view \<times> 'p world" where
  "OtpVerification_useEffect location_email v w =
     (let storedEmail = getItem ''signupEmail'' w;
          (v1, w1) =
            (case truthy location_email of
               Some e \<Rightarrow>
                 setState (SetMessage ''Verification code has been sent. Please check your inbox and spam folder.'')
                   (setState (SetEmail e) (v, w))
             | None \<Rightarrow>
                 (case truthy storedEmail of
                    Some e \<Rightarrow>
                      setState (SetMessage ''Please enter the verification code sent to your email.'')
                        (setState (SetEmail e) (v, w))
                  | None \<Rightarrow> (v, navigate ''/signup'' NoState w)))
      in if cooldown v > 0 then
           (let (t, w2) = setTimeout (Set (SetCooldown (cooldown v - 1))) 1000 w1
            in (Some (ClearTimeout t), v1, w2))
         else (None, v1, w1))"

text \<open>
  Lines 55 to 67 of \<open>handleVerify\<close>: the stored signup data, parsed, as the password
  and the profile handed to \<open>verifyOTPAndSignUp\<close>, or the error thrown on the way.
\<close>

definition signupIntent :: "'p env \<Rightarrow> 'p world \<Rightarrow> jserror + jsval \<times> jsval" where
  "signupIntent env w =
     (case truthy (getItem ''signupData'' w) of
        None \<Rightarrow> Inl (JsError ''Signup data not found. Please try again.'')
      | Some signupDataStr \<Rightarrow>
          (case JSON_parse env signupDataStr of
             Inl e \<Rightarrow> Inl e
           | Inr signupData \<Rightarrow>
               (case get_prop signupData ''password'' of
                  Inl e \<Rightarrow> Inl e
                | Inr pw \<Rightarrow>
                    (case get_prop signupData ''name'' of
                       Inl e \<Rightarrow> Inl e
                     | Inr nm \<Rightarrow> Inr (pw, JObj [(''name'', nm)])))))"

text \<open>\<open>err.message || fallback\<close>.\<close>

definition message_or :: "jserror \<Rightarrow> string \<Rightarrow> string" where
  "message_or err fallback = (if err_message err = [] then fallback else err_message err)"

text \<open>The \<open>catch\<close> block of \<open>handleVerify\<close> (lines 81 to 83).\<close>

definition handleVerify_catch :: "jserror \<Rightarrow> otp_view \<times> 'p world \<Rightarrow> otp_view \<times> 'p world" where
  "handleVerify_catch err vw =
     setState (SetError (message_or err ''Failed to verify email''))
       (fst vw, console_error [S ''Verification error:'', E err] (snd vw))"

text \<open>\<open>handleVerify\<close> (lines 40 to 87).\<close>

definition handleVerify :: "'p env \<Rightarrow> otp_view \<Rightarrow> 'p world \<Rightarrow> otp_view \<times> 'p world" where
  "handleVerify env v w =
     (if email v = [] \<or> otp v = [] then
        setState (SetError ''Email and verification code are required'') (v, w)
      else
        (let (v1, w1) = setState (SetError []) (setState (SetLoading True) (v, w));
             w2 = console_log [S (''Verifying OTP for email: '' @ email v)] w1;
             vw3 =
               (case signupIntent env w2 of
                  Inl err \<Rightarrow> handleVerify_catch err (v1, w2)
                | Inr (pw, profile) \<Rightarrow>
                    (case verifyOTPAndSignUp env (email v) (otp v) pw profile w2 of
                       (Inl err, w3) \<Rightarrow> handleVerify_catch err (v1, w3)
                     | (Inr d, w3) \<Rightarrow>
                         (let (v4, w4) =
                                setState (SetMessage ''Account created successfully! Redirecting to login...'')
                                  (v1, w3);
                              w5 = removeItem ''signupEmail'' (removeItem ''signupData'' w4);
                              (t, w6) = setTimeout (NavigateTo ''/login'' (AccountCreated True)) 2000 w5
                          in (v4, w6))))
         in setState (SetLoading False) vw3))"

text \<open>The \<open>catch\<close> block of \<open>handleResendOtp\<close> (lines 108 to 110).\<close>

definition handleResendOtp_catch :: "jserror \<Rightarrow> otp_view \<times> 'p world \<Rightarrow> otp_view \<times> 'p world" where
  "handleResendOtp_catch err vw =
     setState (SetError (message_or err ''Failed to resend verification code''))
       (fst vw, console_error [S ''Error resending OTP:'', E err] (snd vw))"

text \<open>\<open>handleResendOtp\<close> (lines 89 to 114).\<close>

definition handleResendOtp :: "'p env \<Rightarrow> otp_view \<Rightarrow> 'p world \<Rightarrow> otp_view \<times> 'p world" where
  "handleResendOtp env v w =
     (if cooldown v > 0 then (v, w)
      else if email v = [] then
        setState (SetError ''Email is required to resend verification code'') (v, w)
      else
        (let (v1, w1) = setState (SetError []) (setState (SetLoading True) (v, w));
             w2 = console_log [S (''Resending OTP to email: '' @ email v)] w1;
             vw3 =
               (case sendSignUpOTP env (email v) w2 of
                  (Inl err, w3) \<Rightarrow> handleResendOtp_catch err (v1, w3)
                | (Inr u, w3) \<Rightarrow>
                    setState (SetCooldown 60)
                      (setState (SetMessage ''Verification code resent! Please check your inbox and spam folder.'')
                         (v1, w3)))
         in setState (SetLoading False) vw3))"

text \<open>
  A timer that is due runs its callback and is gone: the callbacks of the page are
  \<open>() => setCooldown(cooldown - 1)\<close> and \<open>() => navigate('/login', ...)\<close>.
\<close>

fun run_timer_action :: "timer_action \<Rightarrow> otp_view \<times> 'p world \<Rightarrow> otp_view \<times> 'p world" where
  "run_timer_action (Set s) vw = setState s vw"
| "run_timer_action (NavigateTo path st) vw = (fst vw, navigate path st (snd vw))"

definition fire_timer :: "nat \<Rightarrow> otp_view \<times> 'p world \<Rightarrow> otp_view \<times> 'p world" where
  "fire_timer t vw =
     (case timers (snd vw) t of
        None \<Rightarrow> vw
      | Some (ms, act) \<Rightarrow> run_timer_action act (fst vw, clearTimeout t (snd vw)))"

text \<open>
  One round of the countdown: the effect runs after a render, and the timer it set, if
  any, fires when its delay has passed. The state change brings the next render.
\<close>

definition countdown_round :: "string option \<Rightarrow> otp_view \<times> 'p world \<Rightarrow> otp_view \<times> 'p world" where
  "countdown_round location_email vw =
     (case OtpVerification_useEffect location_email (fst vw) (snd vw) of
        (Some (ClearTimeout t), v', w') \<Rightarrow> fire_timer t (v', w')
      | (c, v', w') \<Rightarrow> (v', w'))"

section \<open>Concrete scenarios\<close>

text \<open>
  A provider that remembers the codes it has issued: every address gets the code
  \<open>123456\<close>, and a code verifies when it was issued for that address.
\<close>

definition otp_provider :: "(string \<times> string) list env" where
  "otp_provider =
     \<lparr>origin = ''https://app.example'',
      JSON_parse = (\<lambda>str. if str = ''signup-json''
         then Inr (JObj [(''email'', JStr ''a@b.com''), (''password'', JStr ''secret''), (''name'', JStr ''Ann'')])
         else Inl (JsError ''Unexpected token'')),
      auth_getSession = (\<lambda>b. (Fulfilled None, b)),
      auth_signInWithOtp = (\<lambda>em create b. (Fulfilled (), (em, ''123456'') # b)),
      auth_verifyOtp = (\<lambda>em tok k b.
         if (em, tok) \<in> set b then (Fulfilled (), b)
         else (Failed (JsError ''Token has expired or is invalid''), b)),
      auth_signUp = (\<lambda>em pw d redirect b. (Fulfilled (JObj [(''email'', JStr em)]), b))\<rparr>"

text \<open>A provider whose session lookup resolves with an error.\<close>

definition stale_provider :: "unit env" where
  "stale_provider =
     \<lparr>origin = ''https://app.example'',
      JSON_parse = (\<lambda>str. Inl (JsError ''Unexpected token'')),
      auth_getSession = (\<lambda>b. (Failed (JsError ''Invalid Refresh Token''), b)),
      auth_signInWithOtp = (\<lambda>em create b. (Failed (JsError ''Service unavailable''), b)),
      auth_verifyOtp = (\<lambda>em tok k b. (Failed (JsError ''Service unavailable''), b)),
      auth_signUp = (\<lambda>em pw d redirect b. (Failed (JsError ''Service unavailable''), b))\<rparr>"

text \<open>A provider that cannot be reached: every promise rejects.\<close>

definition unreachable_provider :: "unit env" where
  "unreachable_provider =
     \<lparr>origin = ''https://app.example'',
      JSON_parse = (\<lambda>str. Inl (JsError ''Unexpected token'')),
      auth_getSession = (\<lambda>b. (Rejected (JsError ''Failed to fetch''), b)),
      auth_signInWithOtp = (\<lambda>em create b. (Rejected (JsError ''Failed to fetch''), b)),
      auth_verifyOtp = (\<lambda>em tok k b. (Rejected (JsError ''Failed to fetch''), b)),
      auth_signUp = (\<lambda>em pw d redirect b. (Rejected (JsError ''Failed to fetch''), b))\<rparr>"

definition new_world :: "'p \<Rightarrow> 'p world" where
  "new_world b =
     \<lparr>localStorage = Map.empty, trace = [], backend = b, listeners = [], timers = Map.empty, fresh = 0\<rparr>"

text \<open>The signup form has sent the first code for \<open>a@b.com\<close>.\<close>

definition first_send :: "(jserror + unit) \<times> (string \<times> string) list world" where
  "first_send = sendSignUpOTP otp_provider ''a@b.com'' (new_world [])"

text \<open>The verification page is then mounted and its effect has run.\<close>

definition page_mounted :: "cleanup option \<times> otp_view \<times> (string \<times> string) list world" where
  "page_mounted = OtpVerification_useEffect None OtpVerification_init (snd first_send)"

text \<open>The page with a code typed in, and the signup data as the form has stored it.\<close>

definition code_entered :: "string \<Rightarrow> otp_view" where
  "code_entered code = apply_setter (SetOtp code) (fst (snd page_mounted))"

definition intent_stored :: "(string \<times> string) list world" where
  "intent_stored = setItem ''signupData'' ''signup-json'' (snd (snd page_mounted))"

text \<open>
  The verification page opened with no email in the location state and none stored: its
  effect has run and has asked for the navigation to \<open>/signup\<close>.
\<close>

definition page_without_email :: "cleanup option \<times> otp_view \<times> (string \<times> string) list world" where
  "page_without_email = OtpVerification_useEffect None OtpVerification_init (new_world [])"

text \<open>The page after a first, successful resend.\<close>

definition after_resend :: "otp_view \<times> (string \<times> string) list world" where
  "after_resend = handleResendOtp otp_provider (fst (snd page_mounted)) (snd (snd page_mounted))"

text \<open>The events of a run that started in \<open>w\<close> and ended in \<open>w'\<close>.\<close>

definition events_since :: "'p world \<Rightarrow> 'p world \<Rightarrow> event list" where
  "events_since w w' = drop (length (trace w)) (trace w')"

section \<open>Basic facts about the browser model\<close>

lemma requests_emit [simp]: "requests (emit ev w) = requests w @ as_request ev"
  by (simp add: requests_def emit_def)

lemma console_errors_emit [simp]: "console_errors (emit ev w) = console_errors w @ as_console_error ev"
  by (simp add: console_errors_def emit_def)

lemma emit_fields [simp]:
  "localStorage (emit ev w) = localStorage w"
  "backend (emit ev w) = backend w"
  "trace (emit ev w) = trace w @ [ev]"
  "timers (emit ev w) = timers w"
  "listeners (emit ev w) = listeners w"
  "fresh (emit ev w) = fresh w"
  by (simp_all add: emit_def)

lemma requests_update [simp]:
  "requests (w\<lparr>backend := b\<rparr>) = requests w"
  "requests (w\<lparr>localStorage := m\<rparr>) = requests w"
  "requests (w\<lparr>timers := tm\<rparr>) = requests w"
  "requests (w\<lparr>fresh := n\<rparr>) = requests w"
  "requests (w\<lparr>listeners := ls\<rparr>) = requests w"
  by (simp_all add: requests_def)

lemma console_errors_update [simp]:
  "console_errors (w\<lparr>backend := b\<rparr>) = console_errors w"
  "console_errors (w\<lparr>listeners := ls\<rparr>) = console_errors w"
  "console_errors (w\<lparr>fresh := n\<rparr>) = console_errors w"
  by (simp_all add: console_errors_def)

lemmas browser_defs =
  console_log_def console_error_def setItem_def removeItem_def navigate_def getItem_def
  setTimeout_def clearTimeout_def

lemma sendSignUpOTP_storage:
  "localStorage (snd (sendSignUpOTP env em w)) = (localStorage w)(''signupEmail'' \<mapsto> em)"
  by (cases "auth_signInWithOtp env em False (backend w)")
     (auto simp add: sendSignUpOTP_def browser_defs Let_def split: outcome.splits)

lemma sendSignUpOTP_result:
  "fst (sendSignUpOTP env em w) =
     (case fst (auth_signInWithOtp env em False (backend w)) of
        Fulfilled u \<Rightarrow> Inr () | Failed e \<Rightarrow> Inl e | Rejected e \<Rightarrow> Inl e)"
  by (cases "auth_signInWithOtp env em False (backend w)")
     (auto simp add: sendSignUpOTP_def browser_defs Let_def split: outcome.splits)

lemma sendSignUpOTP_requests:
  "requests (snd (sendSignUpOTP env em w)) = requests w @ [SignInWithOtp em False]"
  by (cases "auth_signInWithOtp env em False (backend w)")
     (auto simp add: sendSignUpOTP_def browser_defs Let_def split: outcome.splits)

lemma sendSignUpOTP_trace:
  "\<exists>rest. trace (snd (sendSignUpOTP env em w))
       = trace w @ [ConsoleLog [S ''Sending signup OTP to:'', S em],
                    SetItem ''signupEmail'' em,
                    Request (SignInWithOtp em False)] @ rest"
  by (cases "auth_signInWithOtp env em False (backend w)")
     (auto simp add: sendSignUpOTP_def browser_defs Let_def split: outcome.splits)

lemma verifyOTPAndSignUp_requests:
  "requests (snd (verifyOTPAndSignUp env em tok pw prof w)) =
     requests w @ VerifyOtp em tok EmailOtp #
       (case fst (auth_verifyOtp env em tok EmailOtp (backend w)) of
          Fulfilled u \<Rightarrow> [SignUp em pw prof (origin env @ ''/login'')]
        | Failed e \<Rightarrow> [] | Rejected e \<Rightarrow> [])"
  apply (cases "auth_verifyOtp env em tok EmailOtp (backend w)")
  subgoal for r b
    apply (cases "auth_signUp env em pw prof (origin env @ ''/login'') b")
    apply (auto simp add: verifyOTPAndSignUp_def browser_defs Let_def split: outcome.splits)
    done
  done

lemma verifyOTPAndSignUp_result:
  "fst (verifyOTPAndSignUp env em tok pw prof w) =
     (case auth_verifyOtp env em tok EmailOtp (backend w) of
        (Fulfilled u, b) \<Rightarrow>
          (case fst (auth_signUp env em pw prof (origin env @ ''/login'') b) of
             Fulfilled d \<Rightarrow> Inr d | Failed e \<Rightarrow> Inl e | Rejected e \<Rightarrow> Inl e)
      | (Failed e, b) \<Rightarrow> Inl e
      | (Rejected e, b) \<Rightarrow> Inl e)"
  apply (cases "auth_verifyOtp env em tok EmailOtp (backend w)")
  subgoal for r b
    apply (cases "auth_signUp env em pw prof (origin env @ ''/login'') b")
    apply (auto simp add: verifyOTPAndSignUp_def browser_defs Let_def split: outcome.splits)
    done
  done

lemma apply_setter_cooldown [simp]:
  "cooldown (apply_setter (SetEmail x) v) = cooldown v"
  "cooldown (apply_setter (SetMessage x) v) = cooldown v"
  "cooldown (apply_setter (SetError x) v) = cooldown v"
  "cooldown (apply_setter (SetLoading b) v) = cooldown v"
  "cooldown (apply_setter (SetCooldown c) v) = c"
  by simp_all

lemma setState_fields [simp]:
  "fst (setState s vw) = apply_setter s (fst vw)"
  "snd (setState s vw) = emit (State s) (snd vw)"
  by (simp_all add: setState_def)

text \<open>The first send and the mounted page of the concrete scenario, evaluated.\<close>

lemma sendSignUpOTP_backend:
  "backend (snd (sendSignUpOTP env em w)) = snd (auth_signInWithOtp env em False (backend w))"
  by (cases "auth_signInWithOtp env em False (backend w)")
     (auto simp add: sendSignUpOTP_def browser_defs Let_def split: outcome.splits)

lemma new_world_fields [simp]:
  "requests (new_world b) = []"
  "console_errors (new_world b) = []"
  "localStorage (new_world b) = Map.empty"
  "backend (new_world b) = b"
  "trace (new_world b) = []"
  "listeners (new_world b) = []"
  "fresh (new_world b) = 0"
  by (simp_all add: new_world_def requests_def console_errors_def)

lemma first_send_eval:
  "fst first_send = Inr ()"
  "requests (snd first_send) = [SignInWithOtp ''a@b.com'' False]"
  "localStorage (snd first_send) = [''signupEmail'' \<mapsto> ''a@b.com'']"
  "backend (snd first_send) = [(''a@b.com'', ''123456'')]"
  by (simp_all add: first_send_def sendSignUpOTP_result sendSignUpOTP_requests sendSignUpOTP_storage
      sendSignUpOTP_backend otp_provider_def)

lemma page_mounted_eval:
  "fst (snd page_mounted) =
     \<lparr>otp = [], email = ''a@b.com'', loading = False, error = [],
      message = ''Please enter the verification code sent to your email.'', cooldown = 0\<rparr>"
  "requests (snd (snd page_mounted)) = [SignInWithOtp ''a@b.com'' False]"
  "localStorage (snd (snd page_mounted)) = [''signupEmail'' \<mapsto> ''a@b.com'']"
  "backend (snd (snd page_mounted)) = [(''a@b.com'', ''123456'')]"
  by (simp_all add: page_mounted_def OtpVerification_useEffect_def OtpVerification_init_def
      getItem_def first_send_eval Let_def case_prod_beta)

section \<open>The gateway\<close>

text \<open>
  Claim C1. For every email, code, password and profile, \<open>verifyOTPAndSignUp\<close>
  sends the verification request first and the account-creation request only after it,
  and only when the verification was fulfilled. When the verification ends with an
  error, returned or thrown, that error is what the caller gets and no account-creation
  request is sent.
\<close>

theorem verifyOTPAndSignUp_verifies_first:
  "requests (snd (verifyOTPAndSignUp env em tok pw prof w)) =
     requests w @ VerifyOtp em tok EmailOtp #
       (case fst (auth_verifyOtp env em tok EmailOtp (backend w)) of
          Fulfilled u \<Rightarrow> [SignUp em pw prof (origin env @ ''/login'')]
        | Failed e \<Rightarrow> []
        | Rejected e \<Rightarrow> [])
   \<and> fst (verifyOTPAndSignUp env em tok pw prof w) =
     (case auth_verifyOtp env em tok EmailOtp (backend w) of
        (Fulfilled u, b) \<Rightarrow>
          (case fst (auth_signUp env em pw prof (origin env @ ''/login'') b) of
             Fulfilled d \<Rightarrow> Inr d | Failed e \<Rightarrow> Inl e | Rejected e \<Rightarrow> Inl e)
      | (Failed e, b) \<Rightarrow> Inl e
      | (Rejected e, b) \<Rightarrow> Inl e)"
  by (simp only: verifyOTPAndSignUp_requests verifyOTPAndSignUp_result simp_thms)

text \<open>
  Claim C1 where the provider has issued \<open>123456\<close> for \<open>a@b.com\<close> and the
  code submitted is \<open>000000\<close>: the provider's error comes back and the only new
  request is the verification.
\<close>

theorem verifyOTPAndSignUp_verifies_first_witness:
  "fst (verifyOTPAndSignUp otp_provider ''a@b.com'' ''000000'' (JStr ''secret'')
          (JObj [(''name'', JStr ''Ann'')]) (snd first_send))
     = Inl (JsError ''Token has expired or is invalid'')
   \<and> requests (snd (verifyOTPAndSignUp otp_provider ''a@b.com'' ''000000'' (JStr ''secret'')
          (JObj [(''name'', JStr ''Ann'')]) (snd first_send)))
     = [SignInWithOtp ''a@b.com'' False, VerifyOtp ''a@b.com'' ''000000'' EmailOtp]"
  using verifyOTPAndSignUp_verifies_first [of otp_provider "''a@b.com''" "''000000''" "JStr ''secret''"
      "JObj [(''name'', JStr ''Ann'')]" "snd first_send"]
  by (simp add: first_send_eval otp_provider_def)

text \<open>
  Claim C10. For every email, \<open>sendSignUpOTP\<close> writes the email under the key
  \<open>signupEmail\<close> before it sends the request to the provider, and the key holds
  that email afterwards whatever the provider answers: when the request fails the error
  goes to the caller and the write is not undone.
\<close>

theorem sendSignUpOTP_email_survives_failure:
  "(\<exists>rest. trace (snd (sendSignUpOTP env em w))
       = trace w @ [ConsoleLog [S ''Sending signup OTP to:'', S em],
                    SetItem ''signupEmail'' em,
                    Request (SignInWithOtp em False)] @ rest)
   \<and> localStorage (snd (sendSignUpOTP env em w)) = (localStorage w)(''signupEmail'' \<mapsto> em)
   \<and> fst (sendSignUpOTP env em w) =
       (case fst (auth_signInWithOtp env em False (backend w)) of
          Fulfilled u \<Rightarrow> Inr () | Failed e \<Rightarrow> Inl e | Rejected e \<Rightarrow> Inl e)"
  using sendSignUpOTP_trace [of env em w] sendSignUpOTP_storage [of env em w]
    sendSignUpOTP_result [of env em w] by blast

text \<open>
  Claim C10 where the provider answers every request with an error: the caller gets the
  error and the key \<open>signupEmail\<close> holds the email all the same.
\<close>

theorem sendSignUpOTP_email_survives_failure_witness:
  "fst (sendSignUpOTP stale_provider ''a@b.com'' (new_world ())) = Inl (JsError ''Service unavailable'')
   \<and> localStorage (snd (sendSignUpOTP stale_provider ''a@b.com'' (new_world ()))) ''signupEmail''
       = Some ''a@b.com''"
  using sendSignUpOTP_email_survives_failure [of stale_provider "''a@b.com''" "new_world ()"]
  by (simp add: stale_provider_def)

section \<open>The route guard\<close>

text \<open>
  Claim C6. For every protected view and every requested location: while the session
  store is loading the guard renders the pending indicator; once loading is over it
  redirects to \<open>/login\<close> with the requested location as navigation state when
  there is no user, and renders the children when there is one.
\<close>

theorem ProtectedRoute_cases:
  "ProtectedRoute \<lparr>user = u, session = s, loading = True\<rparr> location children = Spinner
   \<and> ProtectedRoute \<lparr>user = None, session = s, loading = False\<rparr> location children
       = Navigate ''/login'' (From location) True
   \<and> ProtectedRoute \<lparr>user = Some u', session = s, loading = False\<rparr> location children
       = Fragment children"
  by (simp add: ProtectedRoute_def)

section \<open>Resending the code\<close>

lemma handleResendOtp_unfold:
  assumes "\<not> 0 < cooldown v" and "email v \<noteq> []"
    and "sendSignUpOTP env (email v)
           (console_log [S (''Resending OTP to email: '' @ email v)]
             (emit (State (SetError [])) (emit (State (SetLoading True)) w))) = (r, w3)"
  shows "handleResendOtp env v w =
     setState (SetLoading False)
       (case r of
          Inl err \<Rightarrow> handleResendOtp_catch err (apply_setter (SetError []) (apply_setter (SetLoading True) v), w3)
        | Inr u \<Rightarrow>
            setState (SetCooldown 60)
              (setState (SetMessage ''Verification code resent! Please check your inbox and spam folder.'')
                 (apply_setter (SetError []) (apply_setter (SetLoading True) v), w3)))"
  using assms by (simp add: handleResendOtp_def setState_def split: sum.splits)

lemma handleResendOtp_storage:
  "localStorage (snd (handleResendOtp env v w)) ''signupData'' = localStorage w ''signupData''"
proof (cases "0 < cooldown v \<or> email v = []")
  case True
  then show ?thesis by (auto simp add: handleResendOtp_def)
next
  case False
  obtain r w3 where s: "sendSignUpOTP env (email v)
           (console_log [S (''Resending OTP to email: '' @ email v)]
             (emit (State (SetError [])) (emit (State (SetLoading True)) w))) = (r, w3)"
    by (cases "sendSignUpOTP env (email v)
           (console_log [S (''Resending OTP to email: '' @ email v)]
             (emit (State (SetError [])) (emit (State (SetLoading True)) w)))") auto
  from sendSignUpOTP_storage [of env "email v" "console_log [S (''Resending OTP to email: '' @ email v)]
             (emit (State (SetError [])) (emit (State (SetLoading True)) w))"] s
  have "localStorage w3 ''signupData'' = localStorage w ''signupData''"
    by (simp add: console_log_def)
  with False s show ?thesis
    by (simp add: handleResendOtp_unfold [where r = r and ?w3.0 = w3] handleResendOtp_catch_def
          console_error_def split: sum.splits)
qed

lemma signupIntent_cong:
  "localStorage w' ''signupData'' = localStorage w ''signupData'' \<Longrightarrow> signupIntent env w' = signupIntent env w"
  by (simp add: signupIntent_def getItem_def)

text \<open>
  Claim C8. Resending does not touch the pending signup intent: after
  \<open>sendSignUpOTP\<close>, and after the whole resend handler, the key \<open>signupData\<close>
  holds what it held before, and so the password and the name read from it are the same.
\<close>

theorem resend_keeps_signupData:
  "localStorage (snd (sendSignUpOTP env em w)) ''signupData'' = localStorage w ''signupData''
   \<and> localStorage (snd (handleResendOtp env v w)) ''signupData'' = localStorage w ''signupData''
   \<and> signupIntent env (snd (handleResendOtp env v w)) = signupIntent env w"
  using signupIntent_cong [OF handleResendOtp_storage [of env v w], of env]
  by (simp add: sendSignUpOTP_storage handleResendOtp_storage)

lemma resend_blocked: "0 < cooldown v \<Longrightarrow> handleResendOtp env v w = (v, w)"
  by (simp add: handleResendOtp_def)

lemma resend_requests:
  assumes "cooldown v \<le> 0" and "email v \<noteq> []"
  shows "requests (snd (handleResendOtp env v w)) = requests w @ [SignInWithOtp (email v) False]"
proof -
  obtain r w3 where s: "sendSignUpOTP env (email v)
           (console_log [S (''Resending OTP to email: '' @ email v)]
             (emit (State (SetError [])) (emit (State (SetLoading True)) w))) = (r, w3)"
    by (cases "sendSignUpOTP env (email v)
           (console_log [S (''Resending OTP to email: '' @ email v)]
             (emit (State (SetError [])) (emit (State (SetLoading True)) w)))") auto
  from sendSignUpOTP_requests [of env "email v" "console_log [S (''Resending OTP to email: '' @ email v)]
             (emit (State (SetError [])) (emit (State (SetLoading True)) w))"] s
  have "requests w3 = requests w @ [SignInWithOtp (email v) False]"
    by (simp add: console_log_def)
  with assms s show ?thesis
    by (simp add: handleResendOtp_unfold [where r = r and ?w3.0 = w3] handleResendOtp_catch_def
          console_error_def split: sum.splits)
qed

lemma resend_cooldown:
  assumes "cooldown v \<le> 0" and "email v \<noteq> []"
  shows "cooldown (fst (handleResendOtp env v w)) =
     (case fst (auth_signInWithOtp env (email v) False (backend w)) of
        Fulfilled u \<Rightarrow> 60 | Failed e \<Rightarrow> cooldown v | Rejected e \<Rightarrow> cooldown v)"
proof -
  obtain r w3 where s: "sendSignUpOTP env (email v)
           (console_log [S (''Resending OTP to email: '' @ email v)]
             (emit (State (SetError [])) (emit (State (SetLoading True)) w))) = (r, w3)"
    by (cases "sendSignUpOTP env (email v)
           (console_log [S (''Resending OTP to email: '' @ email v)]
             (emit (State (SetError [])) (emit (State (SetLoading True)) w)))") auto
  from sendSignUpOTP_result [of env "email v" "console_log [S (''Resending OTP to email: '' @ email v)]
             (emit (State (SetError [])) (emit (State (SetLoading True)) w))"] s
  have "r = (case fst (auth_signInWithOtp env (email v) False (backend w)) of
        Fulfilled u \<Rightarrow> Inr () | Failed e \<Rightarrow> Inl e | Rejected e \<Rightarrow> Inl e)"
    by (simp add: console_log_def)
  with assms s show ?thesis
    by (simp add: handleResendOtp_unfold [where r = r and ?w3.0 = w3] handleResendOtp_catch_def
          console_error_def split: sum.splits outcome.splits)
qed

lemma effect_timer:
  "0 < cooldown v \<Longrightarrow>
   fst (OtpVerification_useEffect loc v w) = Some (ClearTimeout (fresh w))
   \<and> timers (snd (snd (OtpVerification_useEffect loc v w)))
       = (timers w)(fresh w \<mapsto> (1000, Set (SetCooldown (cooldown v - 1))))
   \<and> cooldown (fst (snd (OtpVerification_useEffect loc v w))) = cooldown v"
  by (simp add: OtpVerification_useEffect_def Let_def case_prod_beta browser_defs split: option.splits)

lemma effect_no_timer:
  "cooldown v \<le> 0 \<Longrightarrow>
   fst (OtpVerification_useEffect loc v w) = None
   \<and> timers (snd (snd (OtpVerification_useEffect loc v w))) = timers w
   \<and> cooldown (fst (snd (OtpVerification_useEffect loc v w))) = cooldown v"
  by (simp add: OtpVerification_useEffect_def Let_def case_prod_beta browser_defs split: option.splits)

lemma countdown_round_cooldown:
  "cooldown (fst (countdown_round loc (v, w))) = (if 0 < cooldown v then cooldown v - 1 else cooldown v)"
proof (cases "0 < cooldown v")
  case True
  obtain c v' w' where e: "OtpVerification_useEffect loc v w = (c, v', w')"
    by (cases "OtpVerification_useEffect loc v w") auto
  from effect_timer [OF True, of loc w] e
  have "c = Some (ClearTimeout (fresh w))"
    and "timers w' (fresh w) = Some (1000, Set (SetCooldown (cooldown v - 1)))"
    by simp_all
  then show ?thesis using True e
    by (simp add: countdown_round_def fire_timer_def)
next
  case False
  obtain c v' w' where e: "OtpVerification_useEffect loc v w = (c, v', w')"
    by (cases "OtpVerification_useEffect loc v w") auto
  from False have "cooldown v \<le> 0" by simp
  from effect_no_timer [OF this, of loc w] e
  have "c = None" and "cooldown v' = cooldown v" by simp_all
  then show ?thesis using False e
    by (simp add: countdown_round_def)
qed

lemma countdown_rounds_cooldown:
  "cooldown (fst vw) = c \<Longrightarrow> int k \<le> c \<Longrightarrow>
   cooldown (fst ((countdown_round loc ^^ k) vw)) = c - int k"
proof (induction k)
  case 0
  then show ?case by simp
next
  case (Suc k)
  then have ih: "cooldown (fst ((countdown_round loc ^^ k) vw)) = c - int k" by simp
  obtain v w where s: "(countdown_round loc ^^ k) vw = (v, w)"
    by (cases "(countdown_round loc ^^ k) vw") auto
  with ih have "cooldown v = c - int k" by simp
  moreover from Suc.prems have "0 < c - int k" by simp
  ultimately show ?case using s countdown_round_cooldown [of loc v w] by simp
qed

section \<open>The cooldown\<close>

text \<open>
  Claim C2, as stated, fails. The signup form has sent the first code for
  \<open>a@b.com\<close> and the provider has accepted it; the verification page is mounted.
  Its cooldown is 0, not 60, and a resend made at once reaches the provider: the request
  is sent a second time.
\<close>

theorem first_resend_not_blocked:
  "fst first_send = Inr ()
   \<and> cooldown (fst (snd page_mounted)) = 0
   \<and> requests (snd (snd page_mounted)) = [SignInWithOtp ''a@b.com'' False]
   \<and> requests (snd (handleResendOtp otp_provider (fst (snd page_mounted)) (snd (snd page_mounted))))
       = [SignInWithOtp ''a@b.com'' False, SignInWithOtp ''a@b.com'' False]"
  by (simp add: first_send_eval page_mounted_eval resend_requests)

text \<open>The resend handler when the cooldown has run out and the email is empty (lines 92 to 95).\<close>

lemma resend_empty_email:
  assumes "cooldown v \<le> 0" and "email v = []"
  shows "handleResendOtp env v w =
     (v\<lparr>error := ''Email is required to resend verification code''\<rparr>,
      emit (State (SetError ''Email is required to resend verification code'')) w)"
  using assms by (simp add: handleResendOtp_def setState_def)

lemma page_without_email_eval:
  "fst (snd page_without_email) = OtpVerification_init"
  "trace (snd (snd page_without_email)) = [Navigated ''/signup'' NoState]"
  "requests (snd (snd page_without_email)) = []"
  by (simp_all add: page_without_email_def OtpVerification_useEffect_def OtpVerification_init_def
      getItem_def navigate_def requests_def Let_def)

text \<open>
  Claim C7, as stated, fails. The page is opened with no email in the location state
  and none stored, and its effect has run: the cooldown is 0 and the email is empty.
  The resend handler stops at its check of the email: it sets the error
  \<open>Email is required to resend verification code\<close>, leaves the cooldown at 0 and
  sends nothing, where the claim has it invoke \<open>sendSignUpOTP\<close>.
\<close>

theorem resend_without_email_counterexample:
  "cooldown (fst (snd page_without_email)) = 0
   \<and> email (fst (snd page_without_email)) = []
   \<and> trace (snd (snd page_without_email)) = [Navigated ''/signup'' NoState]
   \<and> requests (snd (handleResendOtp otp_provider (fst (snd page_without_email))
                      (snd (snd page_without_email)))) = []
   \<and> trace (snd (handleResendOtp otp_provider (fst (snd page_without_email))
                      (snd (snd page_without_email))))
       = [Navigated ''/signup'' NoState,
          State (SetError ''Email is required to resend verification code'')]
   \<and> error (fst (handleResendOtp otp_provider (fst (snd page_without_email))
                      (snd (snd page_without_email))))
       = ''Email is required to resend verification code''
   \<and> cooldown (fst (handleResendOtp otp_provider (fst (snd page_without_email))
                      (snd (snd page_without_email)))) = 0"
  by (simp add: page_without_email_eval resend_empty_email OtpVerification_init_def)

text \<open>
  Claim C7, amended. While the cooldown is positive the resend handler sends nothing
  and changes nothing, the cooldown included. When the cooldown is 0 and the email is
  not empty, it sends exactly one \<open>signInWithOtp\<close> request through
  \<open>sendSignUpOTP\<close>, and when that succeeds the cooldown becomes 60. While the
  cooldown is positive the effect sets one timer of 1000 milliseconds that lowers it by
  one; at 0 it sets none and the cooldown stays 0. When the cooldown is 0 and the email
  is empty, the handler only sets the error
  \<open>Email is required to resend verification code\<close>: that one setter call is all it
  does, no request is sent, \<open>sendSignUpOTP\<close> is not invoked (nothing is written to
  the storage or the console), and the cooldown stays 0.
\<close>

theorem resend_gated_by_cooldown:
  "(0 < cooldown v \<longrightarrow> handleResendOtp env v w = (v, w))
   \<and> (cooldown v0 = 0 \<and> email v0 \<noteq> [] \<longrightarrow>
        requests (snd (handleResendOtp env v0 w)) = requests w @ [SignInWithOtp (email v0) False]
        \<and> (fst (sendSignUpOTP env (email v0) w) = Inr () \<longrightarrow>
             cooldown (fst (handleResendOtp env v0 w)) = 60))
   \<and> (0 < cooldown v \<longrightarrow>
        fst (OtpVerification_useEffect loc v w) = Some (ClearTimeout (fresh w))
        \<and> timers (snd (snd (OtpVerification_useEffect loc v w)))
            = (timers w)(fresh w \<mapsto> (1000, Set (SetCooldown (cooldown v - 1))))
        \<and> cooldown (fst (countdown_round loc (v, w))) = cooldown v - 1)
   \<and> (cooldown v0 = 0 \<longrightarrow>
        fst (OtpVerification_useEffect loc v0 w) = None
        \<and> cooldown (fst (countdown_round loc (v0, w))) = 0)
   \<and> (cooldown v1 = 0 \<and> email v1 = [] \<longrightarrow>
        handleResendOtp env v1 w =
          (v1\<lparr>error := ''Email is required to resend verification code''\<rparr>,
           emit (State (SetError ''Email is required to resend verification code'')) w)
        \<and> error (fst (handleResendOtp env v1 w)) = ''Email is required to resend verification code''
        \<and> cooldown (fst (handleResendOtp env v1 w)) = 0
        \<and> requests (snd (handleResendOtp env v1 w)) = requests w
        \<and> localStorage (snd (handleResendOtp env v1 w)) = localStorage w
        \<and> trace (snd (handleResendOtp env v1 w))
            = trace w @ [State (SetError ''Email is required to resend verification code'')])"
proof (intro conjI impI)
  assume "0 < cooldown v"
  then show "handleResendOtp env v w = (v, w)" by (rule resend_blocked)
next
  assume a: "cooldown v0 = 0 \<and> email v0 \<noteq> []"
  then show "requests (snd (handleResendOtp env v0 w)) = requests w @ [SignInWithOtp (email v0) False]"
    by (simp add: resend_requests)
next
  assume a: "cooldown v0 = 0 \<and> email v0 \<noteq> []"
    and ok: "fst (sendSignUpOTP env (email v0) w) = Inr ()"
  from ok have "\<exists>u. fst (auth_signInWithOtp env (email v0) False (backend w)) = Fulfilled u"
    by (simp add: sendSignUpOTP_result split: outcome.splits)
  with a show "cooldown (fst (handleResendOtp env v0 w)) = 60"
    by (auto simp add: resend_cooldown)
next
  assume p: "0 < cooldown v"
  from effect_timer [OF p, of loc w]
  show "fst (OtpVerification_useEffect loc v w) = Some (ClearTimeout (fresh w))"
    and "timers (snd (snd (OtpVerification_useEffect loc v w)))
            = (timers w)(fresh w \<mapsto> (1000, Set (SetCooldown (cooldown v - 1))))"
    by simp_all
  from p show "cooldown (fst (countdown_round loc (v, w))) = cooldown v - 1"
    by (simp add: countdown_round_cooldown)
next
  assume z: "cooldown v0 = 0"
  then show "fst (OtpVerification_useEffect loc v0 w) = None"
    using effect_no_timer [of v0 loc w] by simp
  from z show "cooldown (fst (countdown_round loc (v0, w))) = 0"
    by (simp add: countdown_round_cooldown)
next
  assume e: "cooldown v1 = 0 \<and> email v1 = []"
  then have r: "handleResendOtp env v1 w =
          (v1\<lparr>error := ''Email is required to resend verification code''\<rparr>,
           emit (State (SetError ''Email is required to resend verification code'')) w)"
    by (simp add: resend_empty_email)
  then show "handleResendOtp env v1 w =
          (v1\<lparr>error := ''Email is required to resend verification code''\<rparr>,
           emit (State (SetError ''Email is required to resend verification code'')) w)" .
  from r show "error (fst (handleResendOtp env v1 w)) = ''Email is required to resend verification code''"
    by simp
  from r e show "cooldown (fst (handleResendOtp env v1 w)) = 0" by simp
  from r show "requests (snd (handleResendOtp env v1 w)) = requests w" by simp
  from r show "localStorage (snd (handleResendOtp env v1 w)) = localStorage w" by simp
  from r show "trace (snd (handleResendOtp env v1 w))
            = trace w @ [State (SetError ''Email is required to resend verification code'')]"
    by simp
qed

lemma after_resend_eval:
  "cooldown (fst after_resend) = 60"
  by (simp add: after_resend_def resend_cooldown page_mounted_eval otp_provider_def)

text \<open>
  The amended claim C7 on the mounted page, before a resend (cooldown 0) and after
  one (cooldown 60), and on the page opened without an email.
\<close>

theorem resend_gated_by_cooldown_witness:
  "0 < cooldown (fst after_resend)
   \<and> handleResendOtp otp_provider (fst after_resend) (snd (snd page_mounted))
       = (fst after_resend, snd (snd page_mounted))
   \<and> cooldown (fst (snd page_mounted)) = 0 \<and> email (fst (snd page_mounted)) \<noteq> []
   \<and> fst (sendSignUpOTP otp_provider (email (fst (snd page_mounted))) (snd (snd page_mounted))) = Inr ()
   \<and> cooldown (fst (handleResendOtp otp_provider (fst (snd page_mounted)) (snd (snd page_mounted)))) = 60
   \<and> cooldown (fst (countdown_round None (fst after_resend, snd (snd page_mounted)))) = 59
   \<and> cooldown (fst (snd page_without_email)) = 0 \<and> email (fst (snd page_without_email)) = []
   \<and> error (fst (handleResendOtp otp_provider (fst (snd page_without_email)) (snd (snd page_mounted))))
       = ''Email is required to resend verification code''
   \<and> requests (snd (handleResendOtp otp_provider (fst (snd page_without_email)) (snd (snd page_mounted))))
       = [SignInWithOtp ''a@b.com'' False]"
  using resend_gated_by_cooldown [of "fst after_resend" otp_provider "snd (snd page_mounted)"
      "fst (snd page_mounted)" None "fst (snd page_without_email)"]
  by (simp add: after_resend_eval page_mounted_eval page_without_email_eval OtpVerification_init_def
      sendSignUpOTP_result otp_provider_def)

text \<open>
  Claim C2, amended. For every non-empty email, after a resend through the resend
  handler has succeeded the cooldown is 60, and after \<open>k < 60\<close> rounds of the
  one-second countdown it is \<open>60 - k\<close>, still positive: a resend attempted then
  returns at once, with no request sent and nothing changed.
\<close>

theorem resend_rejected_during_cooldown:
  assumes "cooldown v = 0" and "email v \<noteq> []"
    and "fst (sendSignUpOTP env (email v) w) = Inr ()"
    and "k < 60"
  shows "cooldown (fst (handleResendOtp env v w)) = 60
    \<and> cooldown (fst ((countdown_round loc ^^ k) (handleResendOtp env v w))) = 60 - int k
    \<and> handleResendOtp env' (fst ((countdown_round loc ^^ k) (handleResendOtp env v w)))
           (snd ((countdown_round loc ^^ k) (handleResendOtp env v w)))
        = (countdown_round loc ^^ k) (handleResendOtp env v w)"
proof -
  from assms(3) have "\<exists>u. fst (auth_signInWithOtp env (email v) False (backend w)) = Fulfilled u"
    by (simp add: sendSignUpOTP_result split: outcome.splits)
  with assms(1,2) have c: "cooldown (fst (handleResendOtp env v w)) = 60"
    by (auto simp add: resend_cooldown)
  from assms(4) have "int k \<le> 60" by simp
  from countdown_rounds_cooldown [OF c this]
  have r: "cooldown (fst ((countdown_round loc ^^ k) (handleResendOtp env v w))) = 60 - int k" .
  with assms(4) have "0 < cooldown (fst ((countdown_round loc ^^ k) (handleResendOtp env v w)))"
    by simp
  from resend_blocked [OF this, of env' "snd ((countdown_round loc ^^ k) (handleResendOtp env v w))"] c r
  show ?thesis by simp
qed

text \<open>
  The amended claim C2 on the mounted page: 59 seconds after the resend the cooldown is
  1 and a further resend is still rejected.
\<close>

theorem resend_rejected_during_cooldown_witness:
  "cooldown (fst (snd page_mounted)) = 0 \<and> email (fst (snd page_mounted)) \<noteq> []
   \<and> fst (sendSignUpOTP otp_provider (email (fst (snd page_mounted))) (snd (snd page_mounted))) = Inr ()
   \<and> (59::nat) < 60
   \<and> cooldown (fst after_resend) = 60
   \<and> cooldown (fst ((countdown_round None ^^ 59) after_resend)) = 1
   \<and> handleResendOtp otp_provider (fst ((countdown_round None ^^ 59) after_resend))
           (snd ((countdown_round None ^^ 59) after_resend))
        = (countdown_round None ^^ 59) after_resend"
proof -
  have h1: "cooldown (fst (snd page_mounted)) = 0" by (simp add: page_mounted_eval)
  have h2: "email (fst (snd page_mounted)) \<noteq> []" by (simp add: page_mounted_eval)
  have h3: "fst (sendSignUpOTP otp_provider (email (fst (snd page_mounted))) (snd (snd page_mounted))) = Inr ()"
    by (simp add: sendSignUpOTP_result otp_provider_def)
  have h4: "(59::nat) < 60" by simp
  from resend_rejected_during_cooldown [OF h1 h2 h3 h4, of None otp_provider] h1 h2 h3 h4
  show ?thesis by (simp add: after_resend_def)
qed

section \<open>Submitting the code\<close>

lemma signupIntent_absent:
  "localStorage w ''signupData'' = None \<Longrightarrow>
   signupIntent env w = Inl (JsError ''Signup data not found. Please try again.'')"
  by (simp add: signupIntent_def getItem_def)

lemma handleVerify_unfold:
  assumes "email v \<noteq> []" and "otp v \<noteq> []"
  shows "handleVerify env v w =
     setState (SetLoading False)
       (case signupIntent env w of
          Inl err \<Rightarrow>
            handleVerify_catch err
              (apply_setter (SetError []) (apply_setter (SetLoading True) v),
               console_log [S (''Verifying OTP for email: '' @ email v)]
                 (emit (State (SetError [])) (emit (State (SetLoading True)) w)))
        | Inr (pw, profile) \<Rightarrow>
            (case verifyOTPAndSignUp env (email v) (otp v) pw profile
                    (console_log [S (''Verifying OTP for email: '' @ email v)]
                      (emit (State (SetError [])) (emit (State (SetLoading True)) w))) of
               (Inl err, w3) \<Rightarrow>
                 handleVerify_catch err (apply_setter (SetError []) (apply_setter (SetLoading True) v), w3)
             | (Inr d, w3) \<Rightarrow>
                 (apply_setter (SetMessage ''Account created successfully! Redirecting to login...'')
                    (apply_setter (SetError []) (apply_setter (SetLoading True) v)),
                  snd (setTimeout (NavigateTo ''/login'' (AccountCreated True)) 2000
                    (removeItem ''signupEmail'' (removeItem ''signupData''
                      (emit (State (SetMessage ''Account created successfully! Redirecting to login...'')) w3)))))))"
proof -
  have "signupIntent env (console_log [S (''Verifying OTP for email: '' @ email v)]
                 (emit (State (SetError [])) (emit (State (SetLoading True)) w))) = signupIntent env w"
    by (rule signupIntent_cong) (simp add: console_log_def)
  with assms show ?thesis
    by (simp add: handleVerify_def setState_def Let_def case_prod_beta split: sum.splits)
qed

text \<open>
  Claim C3, amended. When the key \<open>signupData\<close> is absent, submitting the code
  sends no request to the provider and leaves the storage as it is. For a non-empty
  email and a non-empty code the error shown is the local one,
  \<open>Signup data not found. Please try again.\<close>; when the email or the code is
  empty the handler stops earlier, with
  \<open>Email and verification code are required\<close>.
\<close>

theorem handleVerify_without_intent:
  assumes "localStorage w ''signupData'' = None"
  shows "requests (snd (handleVerify env v w)) = requests w
    \<and> localStorage (snd (handleVerify env v w)) = localStorage w
    \<and> error (fst (handleVerify env v w)) =
        (if email v = [] \<or> otp v = [] then ''Email and verification code are required''
         else ''Signup data not found. Please try again.'')"
proof (cases "email v = [] \<or> otp v = []")
  case True
  then show ?thesis by (simp add: handleVerify_def)
next
  case False
  then have "email v \<noteq> []" and "otp v \<noteq> []" by simp_all
  from handleVerify_unfold [OF this, of env w] signupIntent_absent [OF assms, of env] False
  show ?thesis
    by (simp add: handleVerify_catch_def message_or_def console_log_def console_error_def)
qed

text \<open>
  The amended claim C3 on the mounted page, with a code typed in and no signup data
  stored.
\<close>

theorem handleVerify_without_intent_witness:
  "localStorage (snd (snd page_mounted)) ''signupData'' = None
   \<and> requests (snd (handleVerify otp_provider (code_entered ''123456'') (snd (snd page_mounted))))
       = requests (snd (snd page_mounted))
   \<and> error (fst (handleVerify otp_provider (code_entered ''123456'') (snd (snd page_mounted))))
       = ''Signup data not found. Please try again.''"
proof -
  have h: "localStorage (snd (snd page_mounted)) ''signupData'' = None"
    by (simp add: page_mounted_eval)
  from handleVerify_without_intent [OF h, of otp_provider "code_entered ''123456''"] h
  show ?thesis by (simp add: code_entered_def page_mounted_eval)
qed

text \<open>
  Claim C3, as stated, fails. On the mounted page with no signup data stored and an
  empty code, the error is the one of the presence check, not the one of the missing
  intent.
\<close>

theorem handleVerify_empty_code_counterexample:
  "localStorage (snd (snd page_mounted)) ''signupData'' = None
   \<and> error (fst (handleVerify otp_provider (code_entered []) (snd (snd page_mounted))))
       = ''Email and verification code are required''
   \<and> error (fst (handleVerify otp_provider (code_entered []) (snd (snd page_mounted))))
       \<noteq> ''Signup data not found. Please try again.''"
  by (simp add: handleVerify_def code_entered_def page_mounted_eval)

lemma verifyOTPAndSignUp_success:
  assumes "fst (verifyOTPAndSignUp env em tok pw prof w) = Inr d" and "backend w2 = backend w"
  shows "fst (verifyOTPAndSignUp env em tok pw prof w2) = Inr d"
    and "localStorage (snd (verifyOTPAndSignUp env em tok pw prof w2)) = (localStorage w2)(''signupEmail'' := None)"
    and "timers (snd (verifyOTPAndSignUp env em tok pw prof w2)) = timers w2"
    and "fresh (snd (verifyOTPAndSignUp env em tok pw prof w2)) = fresh w2"
    and "trace (snd (verifyOTPAndSignUp env em tok pw prof w2)) = trace w2 @
          [ConsoleLog [S ''Verifying OTP and creating account for:'', S em],
           Request (VerifyOtp em tok EmailOtp),
           ConsoleLog [S ''OTP verified successfully, creating account''],
           Request (SignUp em pw prof (origin env @ ''/login'')),
           ConsoleLog [S ''Account created successfully:'', V d],
           RemoveItem ''signupEmail'']"
proof -
  obtain r b where v: "auth_verifyOtp env em tok EmailOtp (backend w) = (r, b)"
    by (cases "auth_verifyOtp env em tok EmailOtp (backend w)") auto
  obtain r' b' where s: "auth_signUp env em pw prof (origin env @ ''/login'') b = (r', b')"
    by (cases "auth_signUp env em pw prof (origin env @ ''/login'') b") auto
  from assms(1) v s have ok: "\<exists>u. r = Fulfilled u" "r' = Fulfilled d"
    by (auto simp add: verifyOTPAndSignUp_result split: outcome.splits)
  from ok v s assms(2)
  show "fst (verifyOTPAndSignUp env em tok pw prof w2) = Inr d"
    and "localStorage (snd (verifyOTPAndSignUp env em tok pw prof w2)) = (localStorage w2)(''signupEmail'' := None)"
    and "timers (snd (verifyOTPAndSignUp env em tok pw prof w2)) = timers w2"
    and "fresh (snd (verifyOTPAndSignUp env em tok pw prof w2)) = fresh w2"
    and "trace (snd (verifyOTPAndSignUp env em tok pw prof w2)) = trace w2 @
          [ConsoleLog [S ''Verifying OTP and creating account for:'', S em],
           Request (VerifyOtp em tok EmailOtp),
           ConsoleLog [S ''OTP verified successfully, creating account''],
           Request (SignUp em pw prof (origin env @ ''/login'')),
           ConsoleLog [S ''Account created successfully:'', V d],
           RemoveItem ''signupEmail'']"
    by (auto simp add: verifyOTPAndSignUp_def Let_def console_log_def removeItem_def)
qed

lemma scheduled_navigation:
  assumes "timers w' t = Some (ms, NavigateTo path st)"
  shows "fire_timer t (v', w') = (v', navigate path st (clearTimeout t w'))"
  using assms by (simp add: fire_timer_def)

text \<open>
  Claim C4. When the email and the code are present, the signup data is stored and
  readable, and \<open>verifyOTPAndSignUp\<close> succeeds, then after \<open>handleVerify\<close>
  both keys \<open>signupData\<close> and \<open>signupEmail\<close> are absent, the success message
  is shown and was set exactly once during the run, no error is shown, and exactly one
  timer was added: it is 2000 milliseconds long and, when it fires, navigates to
  \<open>/login\<close>.
\<close>

theorem handleVerify_success:
  assumes "email v \<noteq> []" and "otp v \<noteq> []"
    and "signupIntent env w = Inr (pw, profile)"
    and "fst (verifyOTPAndSignUp env (email v) (otp v) pw profile w) = Inr d"
  shows "localStorage (snd (handleVerify env v w)) ''signupData'' = None
    \<and> localStorage (snd (handleVerify env v w)) ''signupEmail'' = None
    \<and> message (fst (handleVerify env v w)) = ''Account created successfully! Redirecting to login...''
    \<and> error (fst (handleVerify env v w)) = []
    \<and> count_list (events_since w (snd (handleVerify env v w)))
          (State (SetMessage ''Account created successfully! Redirecting to login...'')) = 1
    \<and> timers (snd (handleVerify env v w))
        = (timers w)(fresh w \<mapsto> (2000, NavigateTo ''/login'' (AccountCreated True)))
    \<and> fresh (snd (handleVerify env v w)) = Suc (fresh w)
    \<and> trace (snd (fire_timer (fresh w) (handleVerify env v w)))
        = trace (snd (handleVerify env v w)) @ [Navigated ''/login'' (AccountCreated True)]"
proof -
  let ?w2 = "console_log [S (''Verifying OTP for email: '' @ email v)]
                 (emit (State (SetError [])) (emit (State (SetLoading True)) w))"
  have b: "backend ?w2 = backend w" by (simp add: console_log_def)
  obtain r w3 where run: "verifyOTPAndSignUp env (email v) (otp v) pw profile ?w2 = (r, w3)"
    by (cases "verifyOTPAndSignUp env (email v) (otp v) pw profile ?w2") auto
  from verifyOTPAndSignUp_success [OF assms(4) b] run
  have r: "r = Inr d"
    and st: "localStorage w3 = (localStorage ?w2)(''signupEmail'' := None)"
    and tm: "timers w3 = timers ?w2"
    and fr: "fresh w3 = fresh ?w2"
    and tr: "trace w3 = trace ?w2 @
          [ConsoleLog [S ''Verifying OTP and creating account for:'', S (email v)],
           Request (VerifyOtp (email v) (otp v) EmailOtp),
           ConsoleLog [S ''OTP verified successfully, creating account''],
           Request (SignUp (email v) pw profile (origin env @ ''/login'')),
           ConsoleLog [S ''Account created successfully:'', V d],
           RemoveItem ''signupEmail'']"
    by simp_all
  have u: "handleVerify env v w =
     setState (SetLoading False)
       (apply_setter (SetMessage ''Account created successfully! Redirecting to login...'')
          (apply_setter (SetError []) (apply_setter (SetLoading True) v)),
        snd (setTimeout (NavigateTo ''/login'' (AccountCreated True)) 2000
          (removeItem ''signupEmail'' (removeItem ''signupData''
             (emit (State (SetMessage ''Account created successfully! Redirecting to login...'')) w3)))))"
    using handleVerify_unfold [OF assms(1,2), of env w] assms(3) run r by simp
  have t: "timers (snd (handleVerify env v w)) (fresh w)
      = Some (2000, NavigateTo ''/login'' (AccountCreated True))"
    by (simp add: u tm fr setTimeout_def removeItem_def console_log_def)
  have n: "trace (snd (fire_timer (fresh w) (handleVerify env v w)))
        = trace (snd (handleVerify env v w)) @ [Navigated ''/login'' (AccountCreated True)]"
    using scheduled_navigation [OF t, of "fst (handleVerify env v w)"]
    by (simp add: navigate_def clearTimeout_def)
  show ?thesis
    by (simp add: n) (simp add: u st tm fr tr events_since_def setTimeout_def removeItem_def console_log_def)
qed

lemma intent_stored_eval:
  "localStorage intent_stored = [''signupEmail'' \<mapsto> ''a@b.com'', ''signupData'' \<mapsto> ''signup-json'']"
  "backend intent_stored = [(''a@b.com'', ''123456'')]"
  by (simp_all add: intent_stored_def setItem_def page_mounted_eval)

lemma code_entered_eval:
  "email (code_entered c) = ''a@b.com''" "otp (code_entered c) = c"
  by (simp_all add: code_entered_def page_mounted_eval)

text \<open>
  Claim C4 on the mounted page, with the code the provider issued typed in and the
  signup data stored.
\<close>

theorem handleVerify_success_witness:
  "email (code_entered ''123456'') \<noteq> [] \<and> otp (code_entered ''123456'') \<noteq> []
   \<and> signupIntent otp_provider intent_stored = Inr (JStr ''secret'', JObj [(''name'', JStr ''Ann'')])
   \<and> fst (verifyOTPAndSignUp otp_provider (email (code_entered ''123456'')) (otp (code_entered ''123456''))
             (JStr ''secret'') (JObj [(''name'', JStr ''Ann'')]) intent_stored)
       = Inr (JObj [(''email'', JStr ''a@b.com'')])
   \<and> localStorage (snd (handleVerify otp_provider (code_entered ''123456'') intent_stored)) ''signupData'' = None
   \<and> localStorage (snd (handleVerify otp_provider (code_entered ''123456'') intent_stored)) ''signupEmail'' = None
   \<and> message (fst (handleVerify otp_provider (code_entered ''123456'') intent_stored))
       = ''Account created successfully! Redirecting to login...''"
proof -
  have h1: "email (code_entered ''123456'') \<noteq> []" and h2: "otp (code_entered ''123456'') \<noteq> []"
    by (simp_all add: code_entered_eval)
  have h3: "signupIntent otp_provider intent_stored = Inr (JStr ''secret'', JObj [(''name'', JStr ''Ann'')])"
    by (simp add: signupIntent_def getItem_def intent_stored_eval otp_provider_def)
  have h4: "fst (verifyOTPAndSignUp otp_provider (email (code_entered ''123456'')) (otp (code_entered ''123456''))
             (JStr ''secret'') (JObj [(''name'', JStr ''Ann'')]) intent_stored)
       = Inr (JObj [(''email'', JStr ''a@b.com'')])"
    by (simp add: verifyOTPAndSignUp_result intent_stored_eval code_entered_eval otp_provider_def)
  from handleVerify_success [OF h1 h2 h3 h4] h1 h2 h3 h4 show ?thesis by simp
qed

section \<open>The session store\<close>

text \<open>
  The initial lookup when it throws: the error is logged, the state keeps its user and
  session, \<open>loading\<close> becomes false, and the lookup is not repeated.
\<close>

lemma checkUser_rejected:
  assumes "fst (auth_getSession env (backend w)) = Rejected e"
  shows "console_errors (snd (snd (checkUser env a w))) = console_errors w @ [[S ''Error checking session:'', E e]]"
    and "fst (snd (checkUser env a w)) = a\<lparr>auth_state.loading := False\<rparr>"
    and "requests (snd (snd (checkUser env a w))) = requests w @ [GetSession, OnAuthStateChange]"
  using assms
  by (cases "auth_getSession env (backend w)";
      simp add: checkUser_def Let_def onAuthStateChange_def console_error_def)+

text \<open>
  The initial lookup when it resolves with an error: the state has no user and no
  session, \<open>loading\<close> becomes false, the lookup is not repeated, and the console
  gets nothing.
\<close>

lemma checkUser_failed:
  assumes "fst (auth_getSession env (backend w)) = Failed e"
  shows "console_errors (snd (snd (checkUser env a w))) = console_errors w"
    and "fst (snd (checkUser env a w)) = a\<lparr>session := None, user := None, auth_state.loading := False\<rparr>"
    and "requests (snd (snd (checkUser env a w))) = requests w @ [GetSession, OnAuthStateChange]"
  using assms
  by (cases "auth_getSession env (backend w)";
      simp add: checkUser_def Let_def onAuthStateChange_def console_error_def)+

lemma checkUser_loading: "\<not> auth_state.loading (fst (snd (checkUser env a w)))"
  by (cases "auth_getSession env (backend w)")
     (simp add: checkUser_def Let_def onAuthStateChange_def console_error_def split: outcome.splits)

lemma checkUser_listener:
  "fst (checkUser env a w) = Unsubscribe (fresh w)"
  "listeners (snd (snd (checkUser env a w))) = listeners w @ [fresh w]"
  by (cases "auth_getSession env (backend w)";
      simp add: checkUser_def Let_def onAuthStateChange_def console_error_def split: outcome.splits)+

text \<open>Had React been given the clean-up of \<open>checkUser\<close>, it would have unsubscribed.\<close>

lemma checkUser_cleanup_unsubscribes:
  "fresh w \<notin> set (listeners w) \<Longrightarrow>
   listeners (run_cleanup (fst (checkUser env a w)) (snd (snd (checkUser env a w)))) = listeners w"
  by (simp add: checkUser_listener unsubscribe_def)

text \<open>
  Claim C5 does not hold of the code. The clean-up that unsubscribes is the value of the
  promise of \<open>checkUser\<close>; the effect callback itself returns nothing. So for every
  provider and every world, unmounting after the effect has run changes nothing: the
  subscription registered by the effect is still among the listeners, and an event of
  the provider still reaches its callback.
\<close>

theorem AuthProvider_unmount_leaves_listener:
  "fst (AuthProvider_useEffect env AuthProvider_init w) = None
   \<and> unmount (fst (AuthProvider_useEffect env AuthProvider_init w))
        (snd (snd (AuthProvider_useEffect env AuthProvider_init w)))
       = snd (snd (AuthProvider_useEffect env AuthProvider_init w))
   \<and> listeners (unmount (fst (AuthProvider_useEffect env AuthProvider_init w))
                  (snd (snd (AuthProvider_useEffect env AuthProvider_init w))))
       = listeners w @ [fresh w]
   \<and> deliver (fresh w) ev s a
        (unmount (fst (AuthProvider_useEffect env AuthProvider_init w))
           (snd (snd (AuthProvider_useEffect env AuthProvider_init w))))
       = authListener ev s a (snd (snd (AuthProvider_useEffect env AuthProvider_init w)))"
  by (simp add: AuthProvider_useEffect_def case_prod_beta checkUser_listener deliver_def)

text \<open>
  Claim C9 does not hold of the code when the lookup fails the way the provider
  reports failures everywhere else, by resolving with an \<open>error\<close>: the session
  store ends without a session and with \<open>loading\<close> false, but nothing is written
  to the console.
\<close>

theorem checkUser_returned_error_not_logged:
  "fst (auth_getSession stale_provider (backend (new_world ()))) = Failed (JsError ''Invalid Refresh Token'')
   \<and> console_errors (snd (snd (checkUser stale_provider AuthProvider_init (new_world ())))) = []
   \<and> fst (snd (checkUser stale_provider AuthProvider_init (new_world ())))
       = \<lparr>user = None, session = None, loading = False\<rparr>
   \<and> requests (snd (snd (checkUser stale_provider AuthProvider_init (new_world ()))))
       = [GetSession, OnAuthStateChange]"
proof -
  have f: "fst (auth_getSession stale_provider (backend (new_world ()))) = Failed (JsError ''Invalid Refresh Token'')"
    by (simp add: stale_provider_def)
  from checkUser_failed [OF f, of AuthProvider_init] f show ?thesis
    by (simp add: AuthProvider_init_def)
qed

text \<open>
  When the lookup throws instead, the error is logged and the store ends in the same
  state.
\<close>

lemma checkUser_thrown_error_logged:
  "console_errors (snd (snd (checkUser unreachable_provider AuthProvider_init (new_world ()))))
     = [[S ''Error checking session:'', E (JsError ''Failed to fetch'')]]
   \<and> fst (snd (checkUser unreachable_provider AuthProvider_init (new_world ())))
       = \<lparr>user = None, session = None, loading = False\<rparr>
   \<and> requests (snd (snd (checkUser unreachable_provider AuthProvider_init (new_world ()))))
       = [GetSession, OnAuthStateChange]"
proof -
  have f: "fst (auth_getSession unreachable_provider (backend (new_world ()))) = Rejected (JsError ''Failed to fetch'')"
    by (simp add: unreachable_provider_def)
  from checkUser_rejected [OF f, of AuthProvider_init] show ?thesis
    by (simp add: AuthProvider_init_def)
qed

end
